theory Spec2Isabelle
  imports Main "HOL-Library.Word"
begin

section \<open>Data model of the PixelOS plugin\<close>

text \<open>
  A C++ pointer (\<^verbatim>\<open>void*\<close>, a function pointer, a \<^verbatim>\<open>UTexture2D*\<close>) is an optional
  address: \<open>None\<close> is \<^verbatim>\<open>nullptr\<close>, the value every \<^verbatim>\<open>if (p)\<close> of the source tests for.
\<close>

type_synonym ptr = "nat option"

type_synonym byte = "8 word"

text \<open>
  \<^verbatim>\<open>struct OSConfig\<close> (PixelOSComponent.h): two \<^verbatim>\<open>uint32\<close> fields (the header spells the
  type of the second one \<^verbatim>\<open>uint-32\<close>).
\<close>

record OSConfig =
  width :: "32 word"
  height :: "32 word"

text \<open>
  The object behind \<^verbatim>\<open>OSDisplayTexture\<close>: its dimensions and the bulk data of mip 0
  (\<^verbatim>\<open>PlatformData->Mips[0].BulkData\<close>), whose length is \<^verbatim>\<open>GetBulkDataSize()\<close>.
\<close>

record UTexture2D =
  SizeX :: int
  SizeY :: int
  BulkData :: "byte list"

text \<open>
  Every call that leaves the component: into the platform's module loader and through
  the five resolved entry points. The component keeps them in the order made, oldest
  first, in the field \<open>events\<close>. \<open>Call_create\<close> records the instance the module gave back.
\<close>

datatype event =
    GetDllHandle "string list" ptr
  | FreeDllHandle nat
  | Call_create OSConfig ptr
  | Call_destroy nat
  | Call_step nat
  | Call_send_key nat "32 word" "32 word"
  | Call_get_framebuffer nat

text \<open>
  What the platform and the loaded module answer during one call of the host: the
  plugin directory, whether a file exists, what \<^verbatim>\<open>GetDllHandle\<close> and \<^verbatim>\<open>GetDllExport\<close> return,
  what the module's create and get_framebuffer return (for get_framebuffer the bytes
  readable at the returned pointer, \<open>None\<close> for a null pointer), and the contents of freshly
  allocated bulk data.
\<close>

record world =
  ProjectPluginsDir :: string
  FileExists :: "string list \<Rightarrow> bool"
  GetDllHandle_ret :: "string list \<Rightarrow> ptr"
  GetDllExport_ret :: "nat \<Rightarrow> string \<Rightarrow> ptr"
  create_ret :: "OSConfig \<Rightarrow> ptr"
  framebuffer_ret :: "nat \<Rightarrow> byte list option"
  fresh_bulk :: "nat \<Rightarrow> byte"

text \<open>
  The ways a call of the component can leave defined behaviour: a call through a null
  function pointer, and a \<^verbatim>\<open>Memcpy\<close> that reads past the end of its source.
\<close>

datatype fault = NullFunctionCall string | ReadPastSource

text \<open>\<^verbatim>\<open>class UPixelOSComponent\<close> (PixelOSComponent.h), with the trace of its outside calls.\<close>

record UPixelOSComponent =
  bCanEverTick :: bool
  OSDisplayTexture :: "UTexture2D option"
  FFIHandle :: ptr
  OSInstance :: ptr
  pixelos_create :: ptr
  pixelos_destroy :: ptr
  pixelos_step :: ptr
  pixelos_send_key :: ptr
  pixelos_get_framebuffer :: ptr
  events :: "event list"

section \<open>Engine operations the component calls\<close>

datatype EPixelFormat = PF_R8G8B8A8

text \<open>Bytes per block of a pixel format (block size 1 by 1 for \<open>PF_R8G8B8A8\<close>).\<close>

fun BlockBytes :: "EPixelFormat \<Rightarrow> int" where
  "BlockBytes PF_R8G8B8A8 = 4"

text \<open>
  Modelled from the spec: the engine's \<^verbatim>\<open>UTexture2D::CreateTransient\<close> is not part of the
  sources. The display surface is a byte buffer of exactly width * height * 4 bytes,
  4 bytes per pixel with no row padding; a transient texture exists only for positive
  dimensions. Its first contents are whatever the fresh allocation holds.
\<close>

definition CreateTransient ::
  "(nat \<Rightarrow> byte) \<Rightarrow> int \<Rightarrow> int \<Rightarrow> EPixelFormat \<Rightarrow> UTexture2D option" where
  "CreateTransient fresh InSizeX InSizeY InFormat =
     (if InSizeX > 0 \<and> InSizeY > 0
      then Some \<lparr>SizeX = InSizeX, SizeY = InSizeY,
                 BulkData = map fresh [0..<nat (InSizeX * InSizeY * BlockBytes InFormat)]\<rparr>
      else None)"

text \<open>
  \<^verbatim>\<open>FMemory::Memcpy(dst, src, n)\<close>: the first \<open>n\<close> bytes of \<open>dst\<close> become the first \<open>n\<close> bytes
  of \<open>src\<close>. Reading more bytes than the source region holds is a fault.
\<close>

definition Memcpy :: "byte list \<Rightarrow> byte list \<Rightarrow> nat \<Rightarrow> fault + byte list" where
  "Memcpy dst src n =
     (if n \<le> length src then Inr (take n src @ drop n dst) else Inl ReadPastSource)"

section \<open>UPixelOSComponent (PixelOSComponent.cpp)\<close>

text \<open>The object's memory as the engine's allocator hands it to the constructor: zero-filled.\<close>

definition zeroed_object :: UPixelOSComponent where
  "zeroed_object =
     \<lparr>bCanEverTick = False, OSDisplayTexture = None, FFIHandle = None, OSInstance = None,
      pixelos_create = None, pixelos_destroy = None, pixelos_step = None,
      pixelos_send_key = None, pixelos_get_framebuffer = None, events = []\<rparr>"

text \<open>The constructor sets four fields and leaves the five function pointers as they are.\<close>

definition UPixelOSComponent_ctor :: "UPixelOSComponent \<Rightarrow> UPixelOSComponent" where
  "UPixelOSComponent_ctor raw =
     raw\<lparr>bCanEverTick := True, OSDisplayTexture := None, FFIHandle := None, OSInstance := None\<rparr>"

text \<open>The path \<^verbatim>\<open>FPaths::Combine\<close> builds, as the list of its components.\<close>

definition ffiLibPath :: "world \<Rightarrow> string list" where
  "ffiLibPath w =
     [ProjectPluginsDir w, ''PixelOSPlugin'', ''Source'', ''ThirdParty'', ''pixelos_ffi.so'']"

definition LoadFFILibrary :: "world \<Rightarrow> UPixelOSComponent \<Rightarrow> UPixelOSComponent" where
  "LoadFFILibrary w s =
     (if FileExists w (ffiLibPath w)
      then
        (let h = GetDllHandle_ret w (ffiLibPath w);
             s1 = s\<lparr>FFIHandle := h, events := events s @ [GetDllHandle (ffiLibPath w) h]\<rparr>
         in case h of
              None \<Rightarrow> s1
            | Some a \<Rightarrow>
                s1\<lparr>pixelos_create := GetDllExport_ret w a ''pixelos_create'',
                   pixelos_destroy := GetDllExport_ret w a ''pixelos_destroy'',
                   pixelos_step := GetDllExport_ret w a ''pixelos_step'',
                   pixelos_send_key := GetDllExport_ret w a ''pixelos_send_key'',
                   pixelos_get_framebuffer :=
                     GetDllExport_ret w a ''pixelos_get_framebuffer''\<rparr>)
      else s)"

text \<open>
  \<^verbatim>\<open>BootOS(FString OSName)\<close>. The config is the constant \<open>{1024, 768}\<close>; its \<^verbatim>\<open>uint32\<close>
  fields are converted to the \<^verbatim>\<open>int32\<close> parameters of \<^verbatim>\<open>CreateTransient\<close>.
\<close>

definition BootOS :: "world \<Rightarrow> string \<Rightarrow> UPixelOSComponent \<Rightarrow> UPixelOSComponent" where
  "BootOS w OSName s =
     (case pixelos_create s of
        None \<Rightarrow> s
      | Some f \<Rightarrow>
          (let config = \<lparr>width = 1024, height = 768\<rparr>;
               inst = create_ret w config
           in s\<lparr>OSInstance := inst,
                 OSDisplayTexture :=
                   CreateTransient (fresh_bulk w) (sint (width config)) (sint (height config))
                     PF_R8G8B8A8,
                 events := events s @ [Call_create config inst]\<rparr>))"

text \<open>The first block of \<^verbatim>\<open>UnloadFFILibrary\<close>: destroy the instance the component holds.\<close>

definition UnloadFFILibrary_destroy :: "UPixelOSComponent \<Rightarrow> fault + UPixelOSComponent" where
  "UnloadFFILibrary_destroy s =
     (case OSInstance s of
        None \<Rightarrow> Inr s
      | Some i \<Rightarrow>
          (case pixelos_destroy s of
             None \<Rightarrow> Inl (NullFunctionCall ''pixelos_destroy'')
           | Some f \<Rightarrow> Inr (s\<lparr>OSInstance := None, events := events s @ [Call_destroy i]\<rparr>)))"

text \<open>The second block of \<^verbatim>\<open>UnloadFFILibrary\<close>: free the module handle.\<close>

definition UnloadFFILibrary_free :: "UPixelOSComponent \<Rightarrow> UPixelOSComponent" where
  "UnloadFFILibrary_free s =
     (case FFIHandle s of
        None \<Rightarrow> s
      | Some h \<Rightarrow> s\<lparr>FFIHandle := None, events := events s @ [FreeDllHandle h]\<rparr>)"

text \<open>\<^verbatim>\<open>UnloadFFILibrary\<close>: the two blocks in the order of the source.\<close>

definition UnloadFFILibrary :: "UPixelOSComponent \<Rightarrow> fault + UPixelOSComponent" where
  "UnloadFFILibrary s =
     (case UnloadFFILibrary_destroy s of
        Inl f \<Rightarrow> Inl f
      | Inr s1 \<Rightarrow> Inr (UnloadFFILibrary_free s1))"

text \<open>
  \<^verbatim>\<open>UpdateTexture\<close>. The copy length is \<^verbatim>\<open>Mip.BulkData.GetBulkDataSize()\<close>, the length of the
  bulk data; the source never learns the length of the framebuffer. Locking, unlocking
  and \<^verbatim>\<open>UpdateResource\<close> change none of the fields kept here.
\<close>

definition UpdateTexture :: "world \<Rightarrow> UPixelOSComponent \<Rightarrow> fault + UPixelOSComponent" where
  "UpdateTexture w s =
     (case OSInstance s of
        None \<Rightarrow> Inr s
      | Some i \<Rightarrow>
          (case OSDisplayTexture s of
             None \<Rightarrow> Inr s
           | Some t \<Rightarrow>
               (case pixelos_get_framebuffer s of
                  None \<Rightarrow> Inl (NullFunctionCall ''pixelos_get_framebuffer'')
                | Some f \<Rightarrow>
                    (let s1 = s\<lparr>events := events s @ [Call_get_framebuffer i]\<rparr>
                     in case framebuffer_ret w i of
                          None \<Rightarrow> Inr s1
                        | Some framebuffer \<Rightarrow>
                            (case Memcpy (BulkData t) framebuffer (length (BulkData t)) of
                               Inl e \<Rightarrow> Inl e
                             | Inr d \<Rightarrow>
                                 Inr (s1\<lparr>OSDisplayTexture := Some (t\<lparr>BulkData := d\<rparr>)\<rparr>))))))"

text \<open>
  \<^verbatim>\<open>TickComponent\<close>: the step through the function pointer, then \<open>UpdateTexture\<close>. The
  calls \<^verbatim>\<open>Super::TickComponent\<close>, \<^verbatim>\<open>Super::BeginPlay\<close> and \<^verbatim>\<open>Super::EndPlay\<close> of the component
  touch no field of it.
\<close>

definition TickComponent :: "world \<Rightarrow> UPixelOSComponent \<Rightarrow> fault + UPixelOSComponent" where
  "TickComponent w s =
     (case OSInstance s of
        None \<Rightarrow> Inr s
      | Some i \<Rightarrow>
          (case pixelos_step s of
             None \<Rightarrow> Inl (NullFunctionCall ''pixelos_step'')
           | Some f \<Rightarrow> UpdateTexture w (s\<lparr>events := events s @ [Call_step i]\<rparr>)))"

definition BeginPlay :: "world \<Rightarrow> UPixelOSComponent \<Rightarrow> UPixelOSComponent" where
  "BeginPlay w s = LoadFFILibrary w s"

definition EndPlay :: "UPixelOSComponent \<Rightarrow> fault + UPixelOSComponent" where
  "EndPlay s = UnloadFFILibrary s"

section \<open>AOSComputer (OSComputer.cpp)\<close>

text \<open>
  A material: one authored in the editor, or a dynamic instance over a parent with its
  texture parameters. \<open>None\<close> is a null material pointer.
\<close>

datatype UMaterialInterface =
    UMaterial nat
  | UMaterialInstanceDynamic "UMaterialInterface option" "(string \<times> UTexture2D) list"

text \<open>
  \<^verbatim>\<open>class AOSComputer\<close>: the screen mesh (its material slot 0) and the component. The
  texture parameter of a dynamic material is the texture object the pointer designates
  when the parameter is set.
\<close>

record AOSComputer =
  PrimaryActorTick_bCanEverTick :: bool
  ScreenMesh_Material0 :: "UMaterialInterface option"
  OSComponent :: UPixelOSComponent

definition AOSComputer_ctor ::
  "UMaterialInterface option \<Rightarrow> UPixelOSComponent \<Rightarrow> AOSComputer" where
  "AOSComputer_ctor mesh_material raw =
     \<lparr>PrimaryActorTick_bCanEverTick = True, ScreenMesh_Material0 = mesh_material,
      OSComponent = UPixelOSComponent_ctor raw\<rparr>"

text \<open>
  \<^verbatim>\<open>AOSComputer::BeginPlay\<close>. \<^verbatim>\<open>Super::BeginPlay()\<close> is the engine's actor, which begins play
  on the actor's components: here \<open>BeginPlay\<close> of the component. Then the boot, and the
  material binding under the test of the texture pointer.
\<close>

definition AOSComputer_BeginPlay :: "world \<Rightarrow> AOSComputer \<Rightarrow> AOSComputer" where
  "AOSComputer_BeginPlay w a =
     (let c1 = BeginPlay w (OSComponent a);
          c2 = BootOS w ''PixelOS'' c1
      in case OSDisplayTexture c2 of
           None \<Rightarrow> a\<lparr>OSComponent := c2\<rparr>
         | Some t \<Rightarrow>
             (let DynMaterial =
                    UMaterialInstanceDynamic (ScreenMesh_Material0 a) [(''ScreenTexture'', t)]
              in a\<lparr>OSComponent := c2, ScreenMesh_Material0 := Some DynMaterial\<rparr>))"

section \<open>Runs of the component under the host's calls\<close>

text \<open>
  The calls the host makes on the component, each paired in a run with the answers the
  platform and the module give during it.
\<close>

datatype call = HostBeginPlay | HostEndPlay | HostTickComponent | HostBootOS string

fun dispatch :: "world \<Rightarrow> call \<Rightarrow> UPixelOSComponent \<Rightarrow> fault + UPixelOSComponent" where
  "dispatch w HostBeginPlay s = Inr (BeginPlay w s)"
| "dispatch w HostEndPlay s = EndPlay s"
| "dispatch w HostTickComponent s = TickComponent w s"
| "dispatch w (HostBootOS OSName) s = Inr (BootOS w OSName s)"

fun run :: "(world \<times> call) list \<Rightarrow> UPixelOSComponent \<Rightarrow> fault + UPixelOSComponent" where
  "run [] s = Inr s"
| "run ((w, c) # cs) s =
     (case dispatch w c s of Inl f \<Rightarrow> Inl f | Inr s' \<Rightarrow> run cs s')"

text \<open>The calls made between begin and end of play: ticks and boots.\<close>

fun during_play :: "call \<Rightarrow> bool" where
  "during_play HostTickComponent = True"
| "during_play (HostBootOS OSName) = True"
| "during_play HostBeginPlay = False"
| "during_play HostEndPlay = False"

fun is_boot :: "call \<Rightarrow> bool" where
  "is_boot (HostBootOS OSName) = True"
| "is_boot HostBeginPlay = False"
| "is_boot HostEndPlay = False"
| "is_boot HostTickComponent = False"

text \<open>Every boot of the run is made while the component holds no instance.\<close>

fun boots_when_idle :: "(world \<times> call) list \<Rightarrow> UPixelOSComponent \<Rightarrow> bool" where
  "boots_when_idle [] s = True"
| "boots_when_idle ((w, c) # cs) s =
     ((if is_boot c then OSInstance s = None else True) \<and>
      (case dispatch w c s of Inl f \<Rightarrow> True | Inr s' \<Rightarrow> boots_when_idle cs s'))"

section \<open>The lifecycle ordering, read off the trace\<close>

text \<open>
  The ordering the specification asks for, as a monitor over the trace. It tracks the
  instances created and not yet destroyed and whether the module has been unloaded; it
  stops (\<open>None\<close>) at a free made while an instance is live and at a destroy made after
  the free. A successful \<open>GetDllHandle\<close> maps the module again.
\<close>

fun observe :: "event \<Rightarrow> (nat set \<times> bool) option \<Rightarrow> (nat set \<times> bool) option" where
  "observe e None = None"
| "observe (FreeDllHandle h) (Some (live, unloaded)) =
     (if live = {} then Some (live, True) else None)"
| "observe (Call_destroy i) (Some (live, unloaded)) =
     (if unloaded then None else Some (live - {i}, unloaded))"
| "observe (Call_create c r) (Some (live, unloaded)) =
     Some (case r of None \<Rightarrow> live | Some i \<Rightarrow> insert i live, unloaded)"
| "observe (GetDllHandle p r) (Some (live, unloaded)) =
     Some (live, if r = None then unloaded else False)"
| "observe (Call_step i) (Some (live, unloaded)) = Some (live, unloaded)"
| "observe (Call_send_key i k m) (Some (live, unloaded)) = Some (live, unloaded)"
| "observe (Call_get_framebuffer i) (Some (live, unloaded)) = Some (live, unloaded)"

definition destroy_before_unload :: "event list \<Rightarrow> bool" where
  "destroy_before_unload es = (fold observe es (Some ({}, False)) \<noteq> None)"

fun is_destroy :: "event \<Rightarrow> bool" where
  "is_destroy (Call_destroy i) = True"
| "is_destroy (GetDllHandle p r) = False"
| "is_destroy (FreeDllHandle h) = False"
| "is_destroy (Call_create c r) = False"
| "is_destroy (Call_step i) = False"
| "is_destroy (Call_send_key i k m) = False"
| "is_destroy (Call_get_framebuffer i) = False"

fun is_send_key :: "event \<Rightarrow> bool" where
  "is_send_key (Call_send_key i k m) = True"
| "is_send_key (GetDllHandle p r) = False"
| "is_send_key (FreeDllHandle h) = False"
| "is_send_key (Call_create c r) = False"
| "is_send_key (Call_destroy i) = False"
| "is_send_key (Call_step i) = False"
| "is_send_key (Call_get_framebuffer i) = False"

section \<open>Concrete platforms and modules\<close>

text \<open>A module exporting all five entry points.\<close>

definition full_exports :: "nat \<Rightarrow> string \<Rightarrow> ptr" where
  "full_exports h n =
     (if n = ''pixelos_create'' then Some 101
      else if n = ''pixelos_destroy'' then Some 102
      else if n = ''pixelos_step'' then Some 103
      else if n = ''pixelos_send_key'' then Some 104
      else if n = ''pixelos_get_framebuffer'' then Some 105
      else None)"

text \<open>A module exporting create only.\<close>

definition create_only_exports :: "nat \<Rightarrow> string \<Rightarrow> ptr" where
  "create_only_exports h n = (if n = ''pixelos_create'' then Some 101 else None)"

definition zero_fill :: "nat \<Rightarrow> byte" where
  "zero_fill k = 0"

definition always :: "'b \<Rightarrow> 'a \<Rightarrow> 'b" where
  "always r x = r"

text \<open>
  The module is found at handle 7, create gives instance 1, and the framebuffer is
  1024 * 768 * 4 bytes of 255.
\<close>

definition demo_world :: world where
  "demo_world =
     \<lparr>ProjectPluginsDir = ''Plugins'', FileExists = always True,
      GetDllHandle_ret = always (Some 7), GetDllExport_ret = full_exports,
      create_ret = always (Some 1),
      framebuffer_ret = always (Some (replicate 3145728 255)),
      fresh_bulk = zero_fill\<rparr>"

text \<open>The component after construction, begin of play and one boot in \<open>demo_world\<close>.\<close>

definition demo_loaded :: UPixelOSComponent where
  "demo_loaded = BeginPlay demo_world (UPixelOSComponent_ctor zeroed_object)"

definition demo_booted :: UPixelOSComponent where
  "demo_booted = BootOS demo_world ''PixelOS'' demo_loaded"

text \<open>Variations: another instance, a partial module, a failing create, other framebuffers.\<close>

definition second_world :: world where
  "second_world = demo_world\<lparr>create_ret := always (Some 2)\<rparr>"

definition partial_world :: world where
  "partial_world = demo_world\<lparr>GetDllExport_ret := create_only_exports\<rparr>"

definition null_create_world :: world where
  "null_create_world = demo_world\<lparr>create_ret := always None\<rparr>"

definition null_frame_world :: world where
  "null_frame_world = demo_world\<lparr>framebuffer_ret := always None\<rparr>"

definition long_frame_world :: world where
  "long_frame_world = demo_world\<lparr>framebuffer_ret := always (Some (replicate 3145729 255))\<rparr>"

section \<open>The name passed to BootOS\<close>

text \<open>
  C9: for any two names passed to \<open>BootOS\<close>, in the same state and with the same answers
  of the platform and the module, the resulting component is the same: the same instance,
  the same display texture, the same calls made, with the same config given to create.
\<close>

theorem BootOS_name_irrelevant: "BootOS w name1 s = BootOS w name2 s"
  by (simp add: BootOS_def)

section \<open>Unfolding sets\<close>

lemmas demo_defs = demo_world_def always_def full_exports_def zero_fill_def demo_loaded_def
  demo_booted_def zeroed_object_def UPixelOSComponent_ctor_def

lemmas op_defs = BeginPlay_def EndPlay_def LoadFFILibrary_def BootOS_def UnloadFFILibrary_def
  UnloadFFILibrary_destroy_def UnloadFFILibrary_free_def UpdateTexture_def TickComponent_def
  Memcpy_def CreateTransient_def ffiLibPath_def Let_def

section \<open>Effects of the operations on the trace and the held instance\<close>


lemma observe_step: "observe (Call_step i) m = m"
  by (cases m) auto

lemma observe_get_framebuffer: "observe (Call_get_framebuffer i) m = m"
  by (cases m) auto

lemma UpdateTexture_Inr:
  assumes "UpdateTexture w s = Inr s'"
  shows "OSInstance s' = OSInstance s \<and> FFIHandle s' = FFIHandle s \<and>
         pixelos_destroy s' = pixelos_destroy s \<and>
         fold observe (events s') m = fold observe (events s) m \<and>
         filter is_destroy (events s') = filter is_destroy (events s) \<and>
         filter is_send_key (events s') = filter is_send_key (events s)"
  using assms
  by (auto simp: UpdateTexture_def Let_def observe_get_framebuffer
      split: option.splits sum.splits)

lemma TickComponent_Inr:
  assumes "TickComponent w s = Inr s'"
  shows "OSInstance s' = OSInstance s \<and> FFIHandle s' = FFIHandle s \<and>
         pixelos_destroy s' = pixelos_destroy s \<and>
         fold observe (events s') m = fold observe (events s) m \<and>
         filter is_destroy (events s') = filter is_destroy (events s) \<and>
         filter is_send_key (events s') = filter is_send_key (events s)"
proof (cases "OSInstance s")
  case None
  with assms show ?thesis by (simp add: TickComponent_def)
next
  case (Some i)
  with assms obtain f where f: "pixelos_step s = Some f"
    by (auto simp: TickComponent_def split: option.splits)
  let ?s1 = "s\<lparr>events := events s @ [Call_step i]\<rparr>"
  from assms Some f have "UpdateTexture w ?s1 = Inr s'"
    by (simp add: TickComponent_def)
  from UpdateTexture_Inr [OF this, of m] show ?thesis
    by (simp add: observe_step)
qed

lemma BootOS_idle_observe:
  assumes "OSInstance s = None"
    and "fold observe (events s) m0 = Some (set_option (OSInstance s), False)"
  shows "fold observe (events (BootOS w n s)) m0 = Some (set_option (OSInstance (BootOS w n s)), False)"
  using assms by (auto simp: BootOS_def Let_def split: option.splits)

lemma BootOS_keeps: "FFIHandle (BootOS w n s) = FFIHandle s \<and> pixelos_destroy (BootOS w n s) = pixelos_destroy s"
  by (simp add: BootOS_def Let_def split: option.splits)

lemma play_invariant:
  assumes "list_all (\<lambda>wc. during_play (snd wc)) body"
    and "boots_when_idle body s"
    and "run body s = Inr s'"
    and "fold observe (events s) m0 = Some (set_option (OSInstance s), False)"
  shows "fold observe (events s') m0 = Some (set_option (OSInstance s'), False)"
  using assms
proof (induction body arbitrary: s)
  case Nil
  then show ?case by simp
next
  case (Cons wc body)
  obtain w c where wc: "wc = (w, c)" by (cases wc)
  from Cons.prems(1) wc have dp: "during_play c" and rest: "list_all (\<lambda>wc. during_play (snd wc)) body"
    by simp_all
  from Cons.prems(3) wc obtain s1 where s1: "dispatch w c s = Inr s1" and r: "run body s1 = Inr s'"
    by (auto split: sum.splits)
  from Cons.prems(2) wc s1 have idle: "boots_when_idle body s1" by simp
  have "fold observe (events s1) m0 = Some (set_option (OSInstance s1), False)"
  proof (cases c)
    case HostTickComponent
    with s1 have t: "TickComponent w s = Inr s1" by simp
    from TickComponent_Inr [OF t, of m0] Cons.prems(4) show ?thesis by simp
  next
    case (HostBootOS n)
    with Cons.prems(2) wc have "OSInstance s = None" by simp
    from BootOS_idle_observe [OF this Cons.prems(4)] s1 HostBootOS show ?thesis by auto
  qed (use dp in simp_all)
  from Cons.IH [OF rest idle r this] show ?case .
qed

lemma run_append:
  "run (xs @ ys) s = (case run xs s of Inl f \<Rightarrow> Inl f | Inr s' \<Rightarrow> run ys s')"
  by (induction xs arbitrary: s) (auto split: sum.splits)

lemma UnloadFFILibrary_events:
  assumes "UnloadFFILibrary s = Inr s'"
  shows "events s' = events s @ (case OSInstance s of None \<Rightarrow> [] | Some i \<Rightarrow> [Call_destroy i])
            @ (case FFIHandle s of None \<Rightarrow> [] | Some h \<Rightarrow> [FreeDllHandle h])
         \<and> OSInstance s' = None \<and> FFIHandle s' = None"
  using assms
  by (auto simp: UnloadFFILibrary_def UnloadFFILibrary_destroy_def UnloadFFILibrary_free_def
      split: option.splits sum.splits)

lemma BeginPlay_ctor_observe:
  assumes "events raw = []"
  shows "fold observe (events (BeginPlay w (UPixelOSComponent_ctor raw))) (Some ({}, False))
         = Some (set_option (OSInstance (BeginPlay w (UPixelOSComponent_ctor raw))), False)"
  using assms
  by (auto simp: BeginPlay_def LoadFFILibrary_def UPixelOSComponent_ctor_def Let_def split: option.splits)

lemma map_zero_fill: "map zero_fill xs = replicate (length xs) 0"
  by (induction xs) (simp_all add: zero_fill_def)

lemma BootOS_filters:
  "filter is_destroy (events (BootOS w n s)) = filter is_destroy (events s) \<and>
   filter is_send_key (events (BootOS w n s)) = filter is_send_key (events s)"
  by (simp add: BootOS_def Let_def split: option.splits)

lemma LoadFFILibrary_filters:
  "filter is_destroy (events (LoadFFILibrary w s)) = filter is_destroy (events s) \<and>
   filter is_send_key (events (LoadFFILibrary w s)) = filter is_send_key (events s)"
  by (simp add: LoadFFILibrary_def Let_def split: option.splits)

lemma UnloadFFILibrary_send_key:
  assumes "UnloadFFILibrary s = Inr s'"
  shows "filter is_send_key (events s') = filter is_send_key (events s)"
  using UnloadFFILibrary_events [OF assms] by (simp split: option.splits)

lemma dispatch_send_key:
  assumes "dispatch w c s = Inr s'"
  shows "filter is_send_key (events s') = filter is_send_key (events s)"
proof (cases c)
  case HostBeginPlay
  with assms show ?thesis using LoadFFILibrary_filters [of w s] by (auto simp: BeginPlay_def)
next
  case HostEndPlay
  with assms show ?thesis using UnloadFFILibrary_send_key [of s s'] by (simp add: EndPlay_def)
next
  case HostTickComponent
  with assms show ?thesis using TickComponent_Inr [of w s s'] by simp
next
  case (HostBootOS n)
  with assms show ?thesis using BootOS_filters [of w n s] by auto
qed

lemma run_send_key:
  "run cs s = Inr s' \<Longrightarrow> filter is_send_key (events s') = filter is_send_key (events s)"
proof (induction cs arbitrary: s)
  case Nil
  then show ?case by simp
next
  case (Cons wc cs)
  obtain w c where wc: "wc = (w, c)" by (cases wc)
  with Cons.prems obtain s1 where d: "dispatch w c s = Inr s1" and r: "run cs s1 = Inr s'"
    by (auto split: sum.splits)
  from Cons.IH [OF r] dispatch_send_key [OF d] show ?case by simp
qed

(* C7 *)

lemma UnloadFFILibrary_returns:
  assumes "OSInstance s = None \<or> pixelos_destroy s \<noteq> None"
  shows "\<exists>s'. UnloadFFILibrary s = Inr s'"
proof (cases "OSInstance s")
  case None
  then show ?thesis by (simp add: UnloadFFILibrary_def UnloadFFILibrary_destroy_def)
next
  case (Some i)
  with assms obtain f where "pixelos_destroy s = Some f" by auto
  with Some show ?thesis by (simp add: UnloadFFILibrary_def UnloadFFILibrary_destroy_def)
qed

section \<open>Destroy before unload\<close>

text \<open>
  C1, as stated, fails: after two boots the component holds only the second instance,
  so the teardown destroys that one and frees the module while the first instance,
  created from the module and never destroyed, is still live.
\<close>

theorem unload_while_first_instance_live:
  "map_sum id events
     (run [(demo_world, HostBeginPlay), (demo_world, HostBootOS ''PixelOS''),
           (second_world, HostBootOS ''PixelOS''), (demo_world, HostEndPlay)]
        (UPixelOSComponent_ctor zeroed_object)) =
     Inr [GetDllHandle [''Plugins'', ''PixelOSPlugin'', ''Source'', ''ThirdParty'',
            ''pixelos_ffi.so''] (Some 7),
          Call_create \<lparr>width = 1024, height = 768\<rparr> (Some 1),
          Call_create \<lparr>width = 1024, height = 768\<rparr> (Some 2),
          Call_destroy 2, FreeDllHandle 7] \<and>
   \<not> destroy_before_unload
     [GetDllHandle [''Plugins'', ''PixelOSPlugin'', ''Source'', ''ThirdParty'',
            ''pixelos_ffi.so''] (Some 7),
      Call_create \<lparr>width = 1024, height = 768\<rparr> (Some 1),
      Call_create \<lparr>width = 1024, height = 768\<rparr> (Some 2),
      Call_destroy 2, FreeDllHandle 7]"
  by (simp add: demo_defs second_world_def op_defs destroy_before_unload_def)

text \<open>
  C1, amended: take a session of the component: construction, with the trace empty,
  begin of play, then ticks and boots, then end of play. Suppose that each boot is made while no instance
  is held, that the ticks and boots return, leaving the component in the state \<open>s\<close>,
  and that the destroy entry is resolved if \<open>s\<close> holds an instance. Then the end of
  play returns. It appends to the trace the destroy of the held instance, if any, and
  after it the free of the held module, if any. In the trace of the whole session the
  module is freed only when no created instance is live and no destroy follows the
  free, and the component is left with neither instance nor module.
\<close>

theorem teardown_ordered_when_boots_idle:
  assumes "events raw = []"
    and "list_all (\<lambda>wc. during_play (snd wc)) body"
    and "boots_when_idle body (BeginPlay w0 (UPixelOSComponent_ctor raw))"
    and "run ((w0, HostBeginPlay) # body) (UPixelOSComponent_ctor raw) = Inr s"
    and "OSInstance s = None \<or> pixelos_destroy s \<noteq> None"
  shows "\<exists>s'. run ((w0, HostBeginPlay) # body @ [(w1, HostEndPlay)])
                (UPixelOSComponent_ctor raw) = Inr s' \<and>
              events s' = events s
                @ (case OSInstance s of None \<Rightarrow> [] | Some i \<Rightarrow> [Call_destroy i])
                @ (case FFIHandle s of None \<Rightarrow> [] | Some h \<Rightarrow> [FreeDllHandle h]) \<and>
              destroy_before_unload (events s') \<and>
              OSInstance s' = None \<and> FFIHandle s' = None"
proof -
  let ?init = "BeginPlay w0 (UPixelOSComponent_ctor raw)"
  from assms(4) have s: "run body ?init = Inr s" by simp
  from UnloadFFILibrary_returns [OF assms(5)] obtain s' where e: "UnloadFFILibrary s = Inr s'"
    by blast
  from s e have r: "run ((w0, HostBeginPlay) # body @ [(w1, HostEndPlay)])
      (UPixelOSComponent_ctor raw) = Inr s'"
    by (simp add: run_append EndPlay_def)
  from play_invariant [OF assms(2) assms(3) s BeginPlay_ctor_observe [OF assms(1)]]
  have inv: "fold observe (events s) (Some ({}, False)) = Some (set_option (OSInstance s), False)" .
  from UnloadFFILibrary_events [OF e]
  have ev: "events s' = events s
              @ (case OSInstance s of None \<Rightarrow> [] | Some i \<Rightarrow> [Call_destroy i])
              @ (case FFIHandle s of None \<Rightarrow> [] | Some h \<Rightarrow> [FreeDllHandle h])"
    and fin: "OSInstance s' = None" "FFIHandle s' = None" by simp_all
  have "destroy_before_unload (events s')"
    unfolding destroy_before_unload_def ev using inv
    by (auto split: option.splits)
  with r ev fin show ?thesis by blast
qed

theorem teardown_ordered_when_boots_idle_witness:
  "events zeroed_object = [] \<and>
   list_all (\<lambda>wc. during_play (snd wc))
     [(demo_world, HostBootOS ''PixelOS''), (demo_world, HostTickComponent)] \<and>
   boots_when_idle [(demo_world, HostBootOS ''PixelOS''), (demo_world, HostTickComponent)]
     (BeginPlay demo_world (UPixelOSComponent_ctor zeroed_object)) \<and>
   run [(demo_world, HostBeginPlay), (demo_world, HostBootOS ''PixelOS''),
        (demo_world, HostTickComponent)] (UPixelOSComponent_ctor zeroed_object) =
     Inr (demo_booted
       \<lparr>events := events demo_booted @ [Call_step 1, Call_get_framebuffer 1],
        OSDisplayTexture :=
          Some \<lparr>SizeX = 1024, SizeY = 768, BulkData = replicate 3145728 255\<rparr>\<rparr>) \<and>
   pixelos_destroy (demo_booted
       \<lparr>events := events demo_booted @ [Call_step 1, Call_get_framebuffer 1],
        OSDisplayTexture :=
          Some \<lparr>SizeX = 1024, SizeY = 768, BulkData = replicate 3145728 255\<rparr>\<rparr>) \<noteq> None \<and>
   map_sum id events
     (run [(demo_world, HostBeginPlay), (demo_world, HostBootOS ''PixelOS''),
           (demo_world, HostTickComponent), (demo_world, HostEndPlay)]
        (UPixelOSComponent_ctor zeroed_object)) =
     Inr [GetDllHandle [''Plugins'', ''PixelOSPlugin'', ''Source'', ''ThirdParty'',
            ''pixelos_ffi.so''] (Some 7),
          Call_create \<lparr>width = 1024, height = 768\<rparr> (Some 1), Call_step 1,
          Call_get_framebuffer 1, Call_destroy 1, FreeDllHandle 7] \<and>
   destroy_before_unload
     [GetDllHandle [''Plugins'', ''PixelOSPlugin'', ''Source'', ''ThirdParty'',
            ''pixelos_ffi.so''] (Some 7),
      Call_create \<lparr>width = 1024, height = 768\<rparr> (Some 1), Call_step 1,
      Call_get_framebuffer 1, Call_destroy 1, FreeDllHandle 7]"
proof -
  let ?body = "[(demo_world, HostBootOS ''PixelOS''), (demo_world, HostTickComponent)]"
  let ?init = "UPixelOSComponent_ctor zeroed_object"
  let ?s = "demo_booted
       \<lparr>events := events demo_booted @ [Call_step 1, Call_get_framebuffer 1],
        OSDisplayTexture :=
          Some \<lparr>SizeX = 1024, SizeY = 768, BulkData = replicate 3145728 255\<rparr>\<rparr>"
  let ?trace = "[GetDllHandle [''Plugins'', ''PixelOSPlugin'', ''Source'', ''ThirdParty'',
            ''pixelos_ffi.so''] (Some 7),
          Call_create \<lparr>width = 1024, height = 768\<rparr> (Some 1), Call_step 1,
          Call_get_framebuffer 1, Call_destroy 1, FreeDllHandle 7]"
  have h1: "events zeroed_object = []" by (simp add: zeroed_object_def)
  have h2: "list_all (\<lambda>wc. during_play (snd wc)) ?body" by simp
  have h3: "boots_when_idle ?body (BeginPlay demo_world ?init)"
    by (simp add: demo_defs op_defs)
  have h4: "run ((demo_world, HostBeginPlay) # ?body) ?init = Inr ?s"
    by (simp add: demo_defs op_defs map_zero_fill)
  have h5: "OSInstance ?s = None \<or> pixelos_destroy ?s \<noteq> None"
    by (simp add: demo_defs op_defs)
  from teardown_ordered_when_boots_idle [OF h1 h2 h3 h4 h5, of demo_world]
  obtain s' where r: "run ((demo_world, HostBeginPlay) # ?body @ [(demo_world, HostEndPlay)]) ?init = Inr s'"
    and ev: "events s' = events ?s
                @ (case OSInstance ?s of None \<Rightarrow> [] | Some i \<Rightarrow> [Call_destroy i])
                @ (case FFIHandle ?s of None \<Rightarrow> [] | Some h \<Rightarrow> [FreeDllHandle h])"
    and d: "destroy_before_unload (events s')"
    by blast
  from ev have ev': "events s' = ?trace" by (simp add: demo_defs op_defs)
  from r ev' have m: "map_sum id events
     (run ((demo_world, HostBeginPlay) # ?body @ [(demo_world, HostEndPlay)]) ?init) = Inr ?trace"
    by simp
  from d ev' have d': "destroy_before_unload ?trace" by simp
  from h1 h2 h3 h4 h5 m d' show ?thesis by (simp add: demo_defs op_defs)
qed

(* C8 counterexample *)

section \<open>Loading a module with missing entry points\<close>

text \<open>
  C2, as stated, fails: for a module that exports create only, the load keeps the
  partial table and the module handle, frees nothing and reports nothing, and the boot
  that follows invokes create and holds an instance.
\<close>

theorem partial_table_kept_and_booted:
  "LoadFFILibrary partial_world (UPixelOSComponent_ctor zeroed_object) =
     \<lparr>bCanEverTick = True, OSDisplayTexture = None, FFIHandle = Some 7, OSInstance = None,
      pixelos_create = Some 101, pixelos_destroy = None, pixelos_step = None,
      pixelos_send_key = None, pixelos_get_framebuffer = None,
      events = [GetDllHandle [''Plugins'', ''PixelOSPlugin'', ''Source'', ''ThirdParty'',
                  ''pixelos_ffi.so''] (Some 7)]\<rparr> \<and>
   OSInstance (BootOS partial_world ''PixelOS''
     (LoadFFILibrary partial_world (UPixelOSComponent_ctor zeroed_object))) = Some 1 \<and>
   events (BootOS partial_world ''PixelOS''
     (LoadFFILibrary partial_world (UPixelOSComponent_ctor zeroed_object))) =
     [GetDllHandle [''Plugins'', ''PixelOSPlugin'', ''Source'', ''ThirdParty'',
        ''pixelos_ffi.so''] (Some 7),
      Call_create \<lparr>width = 1024, height = 768\<rparr> (Some 1)]"
  by (simp add: demo_defs partial_world_def create_only_exports_def op_defs)

text \<open>
  C2, amended: after a successful map, the load stores for each of the five entry
  points whatever the lookup returned, null for an unresolved one, keeps the module
  handle, and appends to the trace the \<open>GetDllHandle\<close> call only; nothing is freed and
  nothing is reported. The boot that follows creates an instance exactly when the create
  entry was resolved, whatever became of the other four.
\<close>

theorem LoadFFILibrary_keeps_partial_table:
  assumes "FileExists w (ffiLibPath w)"
    and "GetDllHandle_ret w (ffiLibPath w) = Some h"
  shows "LoadFFILibrary w s =
           s\<lparr>FFIHandle := Some h,
             events := events s @ [GetDllHandle (ffiLibPath w) (Some h)],
             pixelos_create := GetDllExport_ret w h ''pixelos_create'',
             pixelos_destroy := GetDllExport_ret w h ''pixelos_destroy'',
             pixelos_step := GetDllExport_ret w h ''pixelos_step'',
             pixelos_send_key := GetDllExport_ret w h ''pixelos_send_key'',
             pixelos_get_framebuffer := GetDllExport_ret w h ''pixelos_get_framebuffer''\<rparr> \<and>
         OSInstance (BootOS w' OSName (LoadFFILibrary w s)) =
           (if GetDllExport_ret w h ''pixelos_create'' = None then OSInstance s
            else create_ret w' \<lparr>width = 1024, height = 768\<rparr>)"
  using assms by (auto simp: LoadFFILibrary_def BootOS_def Let_def split: option.splits)

theorem LoadFFILibrary_keeps_partial_table_witness:
  "FileExists partial_world (ffiLibPath partial_world) \<and>
   GetDllHandle_ret partial_world (ffiLibPath partial_world) = Some 7 \<and>
   GetDllExport_ret partial_world 7 ''pixelos_destroy'' = None \<and>
   FFIHandle (LoadFFILibrary partial_world (UPixelOSComponent_ctor zeroed_object)) = Some 7 \<and>
   pixelos_destroy (LoadFFILibrary partial_world (UPixelOSComponent_ctor zeroed_object)) = None \<and>
   OSInstance (BootOS demo_world ''PixelOS''
     (LoadFFILibrary partial_world (UPixelOSComponent_ctor zeroed_object))) = Some 1"
proof -
  have h1: "FileExists partial_world (ffiLibPath partial_world)"
    by (simp add: demo_defs partial_world_def create_only_exports_def)
  have h2: "GetDllHandle_ret partial_world (ffiLibPath partial_world) = Some 7"
    by (simp add: demo_defs partial_world_def create_only_exports_def)
  from LoadFFILibrary_keeps_partial_table [OF h1 h2, of "UPixelOSComponent_ctor zeroed_object" demo_world "''PixelOS''"]
  show ?thesis using h1 h2 by (simp add: demo_defs partial_world_def create_only_exports_def op_defs)
qed

(* C3 *)

section \<open>A boot while an instance is held\<close>

text \<open>
  C3, as stated, fails: a second boot of a booted component invokes create again and
  the second instance takes the place of the first in \<open>OSInstance\<close>.
\<close>

theorem second_boot_overwrites:
  "OSInstance demo_booted = Some 1 \<and>
   OSInstance (BootOS second_world ''PixelOS'' demo_booted) = Some 2 \<and>
   events (BootOS second_world ''PixelOS'' demo_booted) =
     [GetDllHandle [''Plugins'', ''PixelOSPlugin'', ''Source'', ''ThirdParty'',
        ''pixelos_ffi.so''] (Some 7),
      Call_create \<lparr>width = 1024, height = 768\<rparr> (Some 1),
      Call_create \<lparr>width = 1024, height = 768\<rparr> (Some 2)]"
  by (simp add: demo_defs second_world_def op_defs)

text \<open>
  C3, amended: the component holds at most one instance, in \<open>OSInstance\<close>. A boot made
  while an instance is held is not rejected: with create resolved, it invokes create
  once more with the config 1024 by 768, puts the result in the place of the held
  instance and allocates a new display texture; it makes no destroy call.
\<close>

theorem boot_while_held_replaces:
  assumes "pixelos_create s = Some f" and "OSInstance s = Some i"
  shows "BootOS w OSName s =
           s\<lparr>OSInstance := create_ret w \<lparr>width = 1024, height = 768\<rparr>,
             OSDisplayTexture := CreateTransient (fresh_bulk w) 1024 768 PF_R8G8B8A8,
             events := events s @
               [Call_create \<lparr>width = 1024, height = 768\<rparr>
                  (create_ret w \<lparr>width = 1024, height = 768\<rparr>)]\<rparr> \<and>
         filter is_destroy (events (BootOS w OSName s)) = filter is_destroy (events s)"
  using assms by (simp add: BootOS_def Let_def)

theorem boot_while_held_replaces_witness:
  "pixelos_create demo_booted = Some 101 \<and> OSInstance demo_booted = Some 1 \<and>
   OSInstance (BootOS second_world ''PixelOS'' demo_booted) = Some 2 \<and>
   filter is_destroy (events (BootOS second_world ''PixelOS'' demo_booted)) = []"
proof -
  have h1: "pixelos_create demo_booted = Some 101" by (simp add: demo_defs second_world_def op_defs)
  have h2: "OSInstance demo_booted = Some 1" by (simp add: demo_defs second_world_def op_defs)
  have e: "filter is_destroy (events demo_booted) = []" by (simp add: demo_defs second_world_def op_defs)
  from boot_while_held_replaces [OF h1 h2, of second_world "''PixelOS''"]
  show ?thesis using h1 h2 e by (simp add: demo_defs second_world_def)
qed

section \<open>The config and the result of create\<close>

text \<open>
  C4, as stated, fails: when create returns a null instance the boot reports nothing
  and goes on as after a success: it allocates the display texture, and the component
  differs from a successful boot only in the null \<open>OSInstance\<close>.
\<close>

theorem boot_null_create_proceeds:
  "BootOS null_create_world ''PixelOS'' demo_loaded =
     demo_loaded
       \<lparr>OSInstance := None,
        OSDisplayTexture :=
          Some \<lparr>SizeX = 1024, SizeY = 768, BulkData = replicate 3145728 0\<rparr>,
        events := events demo_loaded @ [Call_create \<lparr>width = 1024, height = 768\<rparr> None]\<rparr>"
  by (simp add: demo_defs null_create_world_def op_defs map_zero_fill)

text \<open>
  C4, amended: the boot takes no config and validates nothing. With create unresolved
  it changes nothing; with create resolved it invokes create exactly once, with the
  fixed config of width 1024 and height 768, both positive, and keeps what create
  returned: the component holds no instance exactly when create returned null.
\<close>

theorem BootOS_fixed_config:
  "(pixelos_create s = None \<longrightarrow> BootOS w OSName s = s) \<and>
   (pixelos_create s \<noteq> None \<longrightarrow>
      (\<exists>config. events (BootOS w OSName s) = events s @ [Call_create config (create_ret w config)] \<and>
         OSInstance (BootOS w OSName s) = create_ret w config \<and>
         width config = 1024 \<and> height config = 768 \<and> 0 < width config \<and> 0 < height config) \<and>
      (OSInstance (BootOS w OSName s) = None) =
        (create_ret w \<lparr>width = 1024, height = 768\<rparr> = None))"
  by (auto simp: BootOS_def Let_def split: option.splits)

theorem BootOS_fixed_config_witness:
  "pixelos_create zeroed_object = None \<and>
   BootOS demo_world ''PixelOS'' zeroed_object = zeroed_object \<and>
   pixelos_create demo_loaded \<noteq> None \<and>
   create_ret null_create_world \<lparr>width = 1024, height = 768\<rparr> = None \<and>
   OSInstance (BootOS null_create_world ''PixelOS'' demo_loaded) = None \<and>
   OSInstance (BootOS demo_world ''PixelOS'' demo_loaded) \<noteq> None"
proof -
  have h0: "pixelos_create zeroed_object = None" by (simp add: zeroed_object_def)
  have h1: "pixelos_create demo_loaded \<noteq> None" by (simp add: demo_defs null_create_world_def op_defs)
  have h2: "create_ret null_create_world \<lparr>width = 1024, height = 768\<rparr> = None"
    by (simp add: demo_defs null_create_world_def)
  have h3: "create_ret demo_world \<lparr>width = 1024, height = 768\<rparr> \<noteq> None"
    by (simp add: demo_defs null_create_world_def)
  from BootOS_fixed_config [of zeroed_object demo_world "''PixelOS''"]
    BootOS_fixed_config [of demo_loaded null_create_world "''PixelOS''"]
    BootOS_fixed_config [of demo_loaded demo_world "''PixelOS''"]
  show ?thesis using h0 h1 h2 h3 by simp
qed

section \<open>The framebuffer copy\<close>

text \<open>
  C5, as stated, fails: a framebuffer of 3145729 bytes, one more than
  1024 * 768 * 4, is not rejected: its first 3145728 bytes overwrite the surface.
\<close>

theorem oversized_framebuffer_copied:
  "framebuffer_ret long_frame_world 1 = Some (replicate 3145729 255) \<and>
   OSDisplayTexture demo_booted =
     Some \<lparr>SizeX = 1024, SizeY = 768, BulkData = replicate 3145728 0\<rparr> \<and>
   TickComponent long_frame_world demo_booted =
     Inr (demo_booted
       \<lparr>events := events demo_booted @ [Call_step 1, Call_get_framebuffer 1],
        OSDisplayTexture :=
          Some \<lparr>SizeX = 1024, SizeY = 768, BulkData = replicate 3145728 255\<rparr>\<rparr>)"
  by (simp add: demo_defs long_frame_world_def op_defs map_zero_fill)

text \<open>
  C5, amended: on a tick of a component that holds an instance and a texture, with
  step and get_framebuffer resolved, when the framebuffer is non-null and holds at
  least as many bytes as the bulk data of the texture, the tick copies exactly that many
  bytes, from the start of the framebuffer, over the whole bulk data, whatever the
  length of the framebuffer; a framebuffer of exactly that length is copied whole.
\<close>

theorem tick_copies_bulk_size:
  assumes "OSInstance s = Some i" and "OSDisplayTexture s = Some t"
    and "pixelos_step s = Some f" and "pixelos_get_framebuffer s = Some g"
    and "framebuffer_ret w i = Some framebuffer"
    and "length (BulkData t) \<le> length framebuffer"
  shows "TickComponent w s =
           Inr (s\<lparr>events := events s @ [Call_step i, Call_get_framebuffer i],
                  OSDisplayTexture :=
                    Some (t\<lparr>BulkData := take (length (BulkData t)) framebuffer\<rparr>)\<rparr>) \<and>
         (length framebuffer = length (BulkData t) \<longrightarrow>
            take (length (BulkData t)) framebuffer = framebuffer)"
  using assms by (simp add: TickComponent_def UpdateTexture_def Memcpy_def Let_def)

theorem tick_copies_bulk_size_witness:
  "OSInstance demo_booted = Some 1 \<and>
   OSDisplayTexture demo_booted =
     Some \<lparr>SizeX = 1024, SizeY = 768, BulkData = replicate 3145728 0\<rparr> \<and>
   pixelos_step demo_booted = Some 103 \<and> pixelos_get_framebuffer demo_booted = Some 105 \<and>
   framebuffer_ret demo_world 1 = Some (replicate 3145728 255) \<and>
   length (BulkData \<lparr>SizeX = 1024, SizeY = 768, BulkData = replicate 3145728 0\<rparr>)
     \<le> length (replicate 3145728 (255 :: byte)) \<and>
   length (replicate 3145728 (255 :: byte)) =
     length (BulkData \<lparr>SizeX = 1024, SizeY = 768, BulkData = replicate 3145728 0\<rparr>) \<and>
   TickComponent demo_world demo_booted =
     Inr (demo_booted
       \<lparr>events := events demo_booted @ [Call_step 1, Call_get_framebuffer 1],
        OSDisplayTexture :=
          Some \<lparr>SizeX = 1024, SizeY = 768, BulkData = replicate 3145728 255\<rparr>\<rparr>)"
proof -
  let ?t = "\<lparr>SizeX = 1024, SizeY = 768, BulkData = replicate 3145728 (0 :: byte)\<rparr>"
  have h1: "OSInstance demo_booted = Some 1" by (simp add: demo_defs op_defs)
  have h2: "OSDisplayTexture demo_booted = Some ?t"
    by (simp add: demo_defs op_defs map_zero_fill)
  have h3: "pixelos_step demo_booted = Some 103" by (simp add: demo_defs op_defs)
  have h4: "pixelos_get_framebuffer demo_booted = Some 105" by (simp add: demo_defs op_defs)
  have h5: "framebuffer_ret demo_world 1 = Some (replicate 3145728 255)"
    by (simp add: demo_defs)
  have h6: "length (BulkData ?t) \<le> length (replicate 3145728 (255 :: byte))" by simp
  from tick_copies_bulk_size [OF h1 h2 h3 h4 h5 h6]
  show ?thesis using h1 h2 h3 h4 h5 by simp
qed

section \<open>A null framebuffer\<close>

text \<open>
  C6, as stated, fails: with a null framebuffer the tick does not fail; it returns as
  any other tick does, having made the step and get_framebuffer calls.
\<close>

theorem null_framebuffer_tick_returns_normally:
  "framebuffer_ret null_frame_world 1 = None \<and>
   TickComponent null_frame_world demo_booted =
     Inr (demo_booted\<lparr>events := events demo_booted @ [Call_step 1, Call_get_framebuffer 1]\<rparr>)"
  by (simp add: demo_defs null_frame_world_def op_defs)

text \<open>
  C6, amended: on a tick of a component that holds an instance, with step and
  get_framebuffer resolved, when get_framebuffer returns null the tick returns without
  reporting anything and changes the trace only: the display texture and its bytes are
  as before.
\<close>

theorem null_framebuffer_leaves_surface:
  assumes "OSInstance s = Some i" and "framebuffer_ret w i = None"
    and "pixelos_step s = Some f" and "pixelos_get_framebuffer s = Some g"
  shows "TickComponent w s =
           Inr (s\<lparr>events := events s @ Call_step i #
                    (case OSDisplayTexture s of None \<Rightarrow> [] | Some t \<Rightarrow> [Call_get_framebuffer i])\<rparr>)
         \<and> map_sum id OSDisplayTexture (TickComponent w s) = Inr (OSDisplayTexture s)"
  using assms
  by (simp add: TickComponent_def UpdateTexture_def Let_def split: option.splits)

theorem null_framebuffer_leaves_surface_witness:
  "OSInstance demo_booted = Some 1 \<and> framebuffer_ret null_frame_world 1 = None \<and>
   pixelos_step demo_booted = Some 103 \<and> pixelos_get_framebuffer demo_booted = Some 105 \<and>
   map_sum id OSDisplayTexture (TickComponent null_frame_world demo_booted) =
     Inr (OSDisplayTexture demo_booted)"
proof -
  have h1: "OSInstance demo_booted = Some 1" by (simp add: demo_defs null_frame_world_def op_defs)
  have h2: "framebuffer_ret null_frame_world 1 = None" by (simp add: demo_defs null_frame_world_def)
  have h3: "pixelos_step demo_booted = Some 103" by (simp add: demo_defs null_frame_world_def op_defs)
  have h4: "pixelos_get_framebuffer demo_booted = Some 105" by (simp add: demo_defs null_frame_world_def op_defs)
  from null_framebuffer_leaves_surface [OF h1 h2 h3 h4]
  show ?thesis using h1 h2 h3 h4 by simp
qed

section \<open>Ticks and key events without an instance\<close>

text \<open>
  C7, as stated, fails: a tick before any boot returns normally and leaves the
  component as it was: a no-op with nothing reported.
\<close>

theorem tick_before_boot_silent:
  "OSInstance (UPixelOSComponent_ctor zeroed_object) = None \<and>
   TickComponent demo_world (UPixelOSComponent_ctor zeroed_object) =
     Inr (UPixelOSComponent_ctor zeroed_object)"
  by (simp add: demo_defs op_defs)

text \<open>
  C7, amended: a tick made while the component holds no instance invokes neither step
  nor get_framebuffer, reports nothing and leaves the component unchanged. The
  component has no key-event operation: no run of its operations ever invokes the
  send_key entry.
\<close>

theorem tick_without_instance_noop:
  "(OSInstance s = None \<longrightarrow> TickComponent w s = Inr s) \<and>
   (run cs s = Inr s' \<longrightarrow> filter is_send_key (events s') = filter is_send_key (events s))"
  using run_send_key [of cs s s'] by (simp add: TickComponent_def)

theorem tick_without_instance_noop_witness:
  "OSInstance demo_loaded = None \<and> TickComponent demo_world demo_loaded = Inr demo_loaded \<and>
   run [(demo_world, HostBootOS ''PixelOS''), (demo_world, HostTickComponent)] demo_loaded =
     Inr (demo_booted
       \<lparr>events := events demo_booted @ [Call_step 1, Call_get_framebuffer 1],
        OSDisplayTexture :=
          Some \<lparr>SizeX = 1024, SizeY = 768, BulkData = replicate 3145728 255\<rparr>\<rparr>) \<and>
   filter is_send_key (events (demo_booted
       \<lparr>events := events demo_booted @ [Call_step 1, Call_get_framebuffer 1],
        OSDisplayTexture :=
          Some \<lparr>SizeX = 1024, SizeY = 768, BulkData = replicate 3145728 255\<rparr>\<rparr>)) =
     filter is_send_key (events demo_loaded)"
proof -
  let ?s' = "demo_booted
       \<lparr>events := events demo_booted @ [Call_step 1, Call_get_framebuffer 1],
        OSDisplayTexture :=
          Some \<lparr>SizeX = 1024, SizeY = 768, BulkData = replicate 3145728 255\<rparr>\<rparr>"
  have h1: "OSInstance demo_loaded = None" by (simp add: demo_defs op_defs)
  have h2: "run [(demo_world, HostBootOS ''PixelOS''), (demo_world, HostTickComponent)]
              demo_loaded = Inr ?s'"
    by (simp add: demo_defs op_defs map_zero_fill)
  from tick_without_instance_noop
         [of demo_loaded demo_world
             "[(demo_world, HostBootOS ''PixelOS''), (demo_world, HostTickComponent)]" ?s']
  show ?thesis using h1 h2 by simp
qed

(* C8 *)

section \<open>Shutdown\<close>

text \<open>
  C8, as stated, fails. A second boot of a booted component succeeds, and the shutdown
  that follows makes one destroy call, on the second instance: two successful boots,
  one destroy, and the first instance is never destroyed. And a boot from a module
  that exports create only succeeds, while the shutdown that follows stops at the call
  through the null destroy pointer.
\<close>

theorem shutdown_misses_replaced_instance:
  "OSInstance demo_booted = Some 1 \<and>
   map_sum id events (UnloadFFILibrary_destroy (BootOS second_world ''PixelOS'' demo_booted)) =
     Inr [GetDllHandle [''Plugins'', ''PixelOSPlugin'', ''Source'', ''ThirdParty'',
            ''pixelos_ffi.so''] (Some 7),
          Call_create \<lparr>width = 1024, height = 768\<rparr> (Some 1),
          Call_create \<lparr>width = 1024, height = 768\<rparr> (Some 2),
          Call_destroy 2] \<and>
   OSInstance (BootOS partial_world ''PixelOS''
     (LoadFFILibrary partial_world (UPixelOSComponent_ctor zeroed_object))) = Some 1 \<and>
   UnloadFFILibrary_destroy (BootOS partial_world ''PixelOS''
     (LoadFFILibrary partial_world (UPixelOSComponent_ctor zeroed_object))) =
     Inl (NullFunctionCall ''pixelos_destroy'')"
  by (simp add: demo_defs second_world_def partial_world_def create_only_exports_def op_defs)

text \<open>
  C8, amended: shutdown is the first block of \<open>UnloadFFILibrary\<close>. After a boot with
  create resolved whose create returned the instance \<open>i\<close>, and with destroy resolved,
  the shutdown makes exactly one destroy call, on \<open>i\<close>, the instance the component
  holds, and leaves the component without an instance; a second shutdown changes
  nothing. So does the whole of \<open>UnloadFFILibrary\<close>. With no instance held (before any
  boot, after a boot whose create returned null, after a shutdown) the block changes
  nothing, and \<open>UnloadFFILibrary\<close> returns without a destroy call.
\<close>

theorem shutdown_destroys_once_idempotent:
  "(pixelos_create s \<noteq> None \<and> pixelos_destroy s \<noteq> None \<and>
    create_ret w \<lparr>width = 1024, height = 768\<rparr> = Some i \<longrightarrow>
      (\<exists>s1. UnloadFFILibrary_destroy (BootOS w OSName s) = Inr s1 \<and>
            events s1 = events (BootOS w OSName s) @ [Call_destroy i] \<and>
            filter is_destroy (events s1) = filter is_destroy (events s) @ [Call_destroy i] \<and>
            OSInstance s1 = None \<and>
            UnloadFFILibrary_destroy s1 = Inr s1) \<and>
      (\<exists>s2. UnloadFFILibrary (BootOS w OSName s) = Inr s2 \<and>
            filter is_destroy (events s2) = filter is_destroy (events s) @ [Call_destroy i] \<and>
            OSInstance s2 = None \<and>
            UnloadFFILibrary s2 = Inr s2)) \<and>
   (OSInstance s = None \<longrightarrow>
      UnloadFFILibrary_destroy s = Inr s \<and>
      (\<exists>s'. UnloadFFILibrary s = Inr s' \<and> OSInstance s' = None \<and>
            filter is_destroy (events s') = filter is_destroy (events s)))"
  by (auto simp: BootOS_def UnloadFFILibrary_def UnloadFFILibrary_destroy_def
      UnloadFFILibrary_free_def Let_def split: option.splits)

theorem shutdown_destroys_once_idempotent_witness:
  "pixelos_create demo_loaded \<noteq> None \<and> pixelos_destroy demo_loaded \<noteq> None \<and>
   create_ret demo_world \<lparr>width = 1024, height = 768\<rparr> = Some 1 \<and>
   OSInstance demo_loaded = None \<and>
   UnloadFFILibrary_destroy demo_loaded = Inr demo_loaded \<and>
   map_sum id (filter is_destroy \<circ> events)
     (UnloadFFILibrary (BootOS demo_world ''PixelOS'' demo_loaded)) = Inr [Call_destroy 1] \<and>
   map_sum id (filter is_destroy \<circ> events)
     (UnloadFFILibrary_destroy (BootOS null_create_world ''PixelOS'' demo_loaded)) = Inr []"
proof -
  have h1: "pixelos_create demo_loaded \<noteq> None" by (simp add: demo_defs null_create_world_def op_defs)
  have h2: "pixelos_destroy demo_loaded \<noteq> None" by (simp add: demo_defs null_create_world_def op_defs)
  have h3: "create_ret demo_world \<lparr>width = 1024, height = 768\<rparr> = Some 1"
    by (simp add: demo_defs null_create_world_def)
  have h4: "OSInstance demo_loaded = None" by (simp add: demo_defs null_create_world_def op_defs)
  have h5: "OSInstance (BootOS null_create_world ''PixelOS'' demo_loaded) = None"
    by (simp add: demo_defs null_create_world_def op_defs)
  have e: "filter is_destroy (events demo_loaded) = []" by (simp add: demo_defs null_create_world_def op_defs)
  have e2: "filter is_destroy (events (BootOS null_create_world ''PixelOS'' demo_loaded)) = []"
    by (simp add: demo_defs null_create_world_def op_defs)
  from shutdown_destroys_once_idempotent [of demo_loaded demo_world 1 "''PixelOS''"]
    shutdown_destroys_once_idempotent
      [of "BootOS null_create_world ''PixelOS'' demo_loaded" demo_world 1 "''PixelOS''"]
  show ?thesis using h1 h2 h3 h4 h5 e e2 by auto
qed

(* C10 *)

section \<open>The display texture after a failed create\<close>

text \<open>
  C10: with create resolved, the boot assigns a non-null display texture of 1024 by
  768, with 1024 * 768 * 4 bytes, whatever create returned, also null. In
  \<open>AOSComputer::BeginPlay\<close>, with create resolved after the component began play, the
  material binding is made on that texture: the screen gets a dynamic material whose
  \<open>ScreenTexture\<close> is the texture, also when the instance is null.
\<close>

theorem boot_texture_unconditional:
  "(pixelos_create s \<noteq> None \<longrightarrow>
      OSDisplayTexture (BootOS w OSName s) =
        Some \<lparr>SizeX = 1024, SizeY = 768, BulkData = map (fresh_bulk w) [0..<3145728]\<rparr> \<and>
      length (map (fresh_bulk w) [0..<3145728]) = 1024 * 768 * 4 \<and>
      OSInstance (BootOS w OSName s) = create_ret w \<lparr>width = 1024, height = 768\<rparr>) \<and>
   (pixelos_create (BeginPlay w (OSComponent a)) \<noteq> None \<longrightarrow>
      OSInstance (OSComponent (AOSComputer_BeginPlay w a)) =
        create_ret w \<lparr>width = 1024, height = 768\<rparr> \<and>
      OSDisplayTexture (OSComponent (AOSComputer_BeginPlay w a)) =
        Some \<lparr>SizeX = 1024, SizeY = 768, BulkData = map (fresh_bulk w) [0..<3145728]\<rparr> \<and>
      ScreenMesh_Material0 (AOSComputer_BeginPlay w a) =
        Some (UMaterialInstanceDynamic (ScreenMesh_Material0 a)
          [(''ScreenTexture'',
            \<lparr>SizeX = 1024, SizeY = 768, BulkData = map (fresh_bulk w) [0..<3145728]\<rparr>)]))"
  by (auto simp: AOSComputer_BeginPlay_def BootOS_def CreateTransient_def Let_def
      split: option.splits)

theorem boot_texture_unconditional_witness:
  "pixelos_create demo_loaded \<noteq> None \<and>
   pixelos_create (BeginPlay null_create_world
     (OSComponent (AOSComputer_ctor (Some (UMaterial 0)) zeroed_object))) \<noteq> None \<and>
   create_ret null_create_world \<lparr>width = 1024, height = 768\<rparr> = None \<and>
   OSInstance (BootOS null_create_world ''PixelOS'' demo_loaded) = None \<and>
   OSDisplayTexture (BootOS null_create_world ''PixelOS'' demo_loaded) =
     Some \<lparr>SizeX = 1024, SizeY = 768, BulkData = replicate 3145728 0\<rparr> \<and>
   OSInstance (OSComponent (AOSComputer_BeginPlay null_create_world
     (AOSComputer_ctor (Some (UMaterial 0)) zeroed_object))) = None \<and>
   ScreenMesh_Material0 (AOSComputer_BeginPlay null_create_world
     (AOSComputer_ctor (Some (UMaterial 0)) zeroed_object)) =
     Some (UMaterialInstanceDynamic (Some (UMaterial 0))
       [(''ScreenTexture'',
         \<lparr>SizeX = 1024, SizeY = 768, BulkData = replicate 3145728 0\<rparr>)])"
proof -
  let ?a = "AOSComputer_ctor (Some (UMaterial 0)) zeroed_object"
  have h1: "pixelos_create demo_loaded \<noteq> None" by (simp add: demo_defs null_create_world_def op_defs)
  have h2: "pixelos_create (BeginPlay null_create_world (OSComponent ?a)) \<noteq> None"
    by (simp add: AOSComputer_ctor_def demo_defs null_create_world_def op_defs)
  have h3: "create_ret null_create_world \<lparr>width = 1024, height = 768\<rparr> = None"
    by (simp add: demo_defs null_create_world_def)
  have f: "fresh_bulk null_create_world = zero_fill" by (simp add: demo_defs null_create_world_def)
  have m: "ScreenMesh_Material0 ?a = Some (UMaterial 0)" by (simp add: AOSComputer_ctor_def)
  from boot_texture_unconditional [of demo_loaded null_create_world "''PixelOS''" ?a]
  show ?thesis using h1 h2 h3 by (simp add: f m map_zero_fill)
qed


end
